theory Spec2Isabelle
  imports Main "HOL-Library.Word"
begin

text \<open>
  A shallow embedding of the two entry points that post the daily task summary: the
  script with the control file (\<^verbatim>\<open>run\<close>, guarded by \<^verbatim>\<open>./.last_send.json\<close>) and
  the request handler (\<^verbatim>\<open>handler\<close>, which checks its configuration and answers with
  a JSON summary).  Both share \<^verbatim>\<open>queryNotion\<close>, \<^verbatim>\<open>getTaskUrl\<close> and
  \<^verbatim>\<open>formatTasks\<close>; they differ in \<^verbatim>\<open>sendToSlack\<close>, in the hour that ends the
  morning, and in the titles of the messages.
\<close>

section \<open>Strings\<close>

text \<open>
  A JavaScript string is a sequence of UTF-16 code units.  An ASCII literal of the
  source is written \<open>js ''...''\<close>; a code unit beyond ASCII is written as its number.
\<close>

type_synonym jsstring = "16 word list"

definition js :: "string \<Rightarrow> jsstring" where
  "js s = map of_char s"

definition newline :: "16 word" where
  "newline = 0x0A"

definition hyphen :: "16 word" where
  "hyphen = 0x2D"

text \<open>\<^verbatim>\<open>lines.join(sep)\<close> on an array of strings.\<close>

fun join :: "jsstring \<Rightarrow> jsstring list \<Rightarrow> jsstring" where
  "join sep [] = []"
| "join sep [x] = x"
| "join sep (x # y # ys) = x @ sep @ join sep (y # ys)"

text \<open>
  A value that is a string or \<^verbatim>\<open>undefined\<close> is a \<^typ>\<open>jsstring option\<close>.
  \<^verbatim>\<open>a || d\<close> with a string \<open>d\<close> yields \<open>a\<close> when \<open>a\<close> is truthy (a non-empty
  string) and \<open>d\<close> otherwise.
\<close>

definition truthy :: "jsstring option \<Rightarrow> bool" where
  "truthy v = (case v of None \<Rightarrow> False | Some s \<Rightarrow> s \<noteq> [])"

definition or_js :: "jsstring option \<Rightarrow> jsstring option \<Rightarrow> jsstring option" where
  "or_js a b = (if truthy a then a else b)"

definition or_default :: "jsstring option \<Rightarrow> jsstring \<Rightarrow> jsstring" where
  "or_default a d = (case a of None \<Rightarrow> d | Some s \<Rightarrow> if s \<noteq> [] then s else d)"

text \<open>\<^verbatim>\<open>xs?.[0]\<close> on an array: \<^verbatim>\<open>undefined\<close> when the array is empty.\<close>

definition first :: "'a list \<Rightarrow> 'a option" where
  "first xs = (case xs of [] \<Rightarrow> None | x # _ \<Rightarrow> Some x)"

section \<open>Tasks\<close>

text \<open>
  A task is a page object of the task database.  Its identifier is a string; every
  level the source reaches through \<^verbatim>\<open>?.\<close> may be absent, which is \<open>None\<close>.
\<close>

record rich_text =
  plain_text :: "jsstring option"

record title_property =
  title :: "rich_text list option"

record status_value =
  name :: "jsstring option"

record status_property =
  status :: "status_value option"

record properties =
  Title :: "title_property option"
  Name :: "title_property option"
  Status :: "status_property option"

record task =
  task_id :: jsstring
  task_properties :: "properties option"

text \<open>\<^verbatim>\<open>getTaskUrl\<close>: \<^verbatim>\<open>task.id.replace(/-/g, "")\<close> deletes every hyphen.\<close>

definition getTaskUrl :: "task \<Rightarrow> jsstring" where
  "getTaskUrl t =
     (let pageId = filter (\<lambda>c. c \<noteq> hyphen) (task_id t)
      in js ''https://www.notion.so/'' @ pageId)"

definition no_title :: jsstring where
  "no_title = js ''Sem t'' @ [0xED] @ js ''tulo''"

definition no_status :: jsstring where
  "no_status = js ''Sem status''"

definition no_tasks :: jsstring where
  "no_tasks = js ''Nenhuma tarefa encontrada.''"

definition bullet :: "16 word" where
  "bullet = 0x2022"

definition en_dash :: "16 word" where
  "en_dash = 0x2013"

text \<open>\<^verbatim>\<open>formatTasks\<close>, the same in both entry points.\<close>

definition formatTasks :: "task list \<Rightarrow> jsstring \<Rightarrow> jsstring" where
  "formatTasks tasks ttl =
     (if length tasks = 0 then js ''*'' @ ttl @ js ''*'' @ [newline] @ no_tasks
      else
        let lines = map (\<lambda>t.
              let name_t = or_default
                    (or_js
                       (Option.bind (Option.bind (Option.bind (Option.bind
                          (task_properties t) Title) title) first) plain_text)
                       (Option.bind (Option.bind (Option.bind (Option.bind
                          (task_properties t) Name) title) first) plain_text))
                    no_title;
                  status_t = or_default
                    (Option.bind (Option.bind (Option.bind
                       (task_properties t) Status) status) name)
                    no_status;
                  url = getTaskUrl t
              in [bullet] @ js '' *<'' @ url @ js ''|'' @ name_t @ js ''>* '' @ [en_dash]
                   @ js '' '' @ status_t) tasks
        in js ''*'' @ ttl @ js ''*'' @ [newline] @ join [newline] lines)"

section \<open>Configuration and clock\<close>

text \<open>
  The three module constants read from \<^verbatim>\<open>process.env\<close>; an unset variable is
  \<^verbatim>\<open>undefined\<close>, which is \<open>None\<close>.
\<close>

record config =
  NOTION_API_KEY :: "jsstring option"
  NOTION_DATABASE_ID :: "jsstring option"
  SLACK_WEBHOOK_URL :: "jsstring option"

text \<open>A value interpolated into a template literal.\<close>

definition template :: "jsstring option \<Rightarrow> jsstring" where
  "template v = (case v of None \<Rightarrow> js ''undefined'' | Some s \<Rightarrow> s)"

text \<open>
  What the run reads from \<^verbatim>\<open>DateTime.now().setZone("America/Sao_Paulo")\<close>:
  \<^verbatim>\<open>now.toISO()\<close>, \<^verbatim>\<open>now.toISODate()\<close>, \<^verbatim>\<open>now.hour\<close>,
  \<^verbatim>\<open>now.startOf("day").toISO()\<close> and \<^verbatim>\<open>now.endOf("day").toISO()\<close>.
\<close>

record datetime =
  toISO :: jsstring
  toISODate :: jsstring
  hour :: nat
  startOfDay :: jsstring
  endOfDay :: jsstring

section \<open>Requests and responses\<close>

datatype query_filter =
    And "query_filter list"
  | Or "query_filter list"
  | DateEquals jsstring jsstring
  | StatusEquals jsstring jsstring
  | StatusDoesNotEqual jsstring jsstring
  | LastEditedTime jsstring jsstring

text \<open>
  The request body before \<^verbatim>\<open>JSON.stringify\<close>: \<^verbatim>\<open>{ filter }\<close> for the task
  database, \<^verbatim>\<open>{ text: message }\<close> for the webhook.
\<close>

datatype request_body = FilterBody query_filter | TextBody jsstring

record request =
  req_url :: jsstring
  req_method :: jsstring
  req_headers :: "(jsstring \<times> jsstring) list"
  req_body :: request_body

text \<open>
  A parsed body that is a JSON object: its \<^verbatim>\<open>results\<close> member, a list of tasks,
  or \<open>None\<close> when the member is absent or falsy (\<^verbatim>\<open>null\<close>, \<^verbatim>\<open>false\<close>,
  \<^verbatim>\<open>0\<close>, the empty string), and the remaining members as they are logged.  A
  \<^verbatim>\<open>results\<close> member that is truthy and not a list of tasks is outside the model.
\<close>

record notion_data =
  results :: "task list option"
  other_members :: jsstring

text \<open>
  What \<^verbatim>\<open>res.json()\<close> yields on a body that is valid JSON: \<^verbatim>\<open>null\<close>, an
  object, or another value (a number, a string, a boolean or an array), kept as its
  text.
\<close>

datatype parsed_body = JsonNull | JsonObject notion_data | JsonOther jsstring

text \<open>
  A response: \<^verbatim>\<open>res.status\<close>, what \<^verbatim>\<open>res.text()\<close> yields, and what
  \<^verbatim>\<open>res.json()\<close> yields, \<open>None\<close> when the body is not valid JSON and the call
  rejects.  \<^verbatim>\<open>res.ok\<close> is true for a status from 200 to 299.
\<close>

record response =
  res_status :: nat
  body_text :: jsstring
  body_json :: "parsed_body option"

definition ok :: "response \<Rightarrow> bool" where
  "ok res = (200 \<le> res_status res \<and> res_status res < 300)"

text \<open>A \<^verbatim>\<open>fetch\<close> promise rejects (no response arrives) or resolves with a response.\<close>

datatype fetch_outcome = Rejected | Resolved response

text \<open>
  The errors a call can throw: a rejected \<^verbatim>\<open>fetch\<close>, a \<^verbatim>\<open>TypeError\<close>
  (\<^verbatim>\<open>fetch\<close> called with \<^verbatim>\<open>undefined\<close> as its URL, a member read from
  \<^verbatim>\<open>null\<close>), a rejected \<^verbatim>\<open>res.json()\<close>, and the error the request handler's
  sender raises, with the status and the body text of its message.
\<close>

datatype js_error =
    FetchFailed
  | TypeError
  | InvalidJson
  | SlackError nat jsstring

section \<open>The world of a run\<close>

text \<open>
  The outside of the program: the answer of the network to the \<open>n\<close>-th request of
  the process, and whether the control file can be written.  Every request is
  answered or rejected; a request that never returns is outside the model.
\<close>

record environment =
  net :: "nat \<Rightarrow> request \<Rightarrow> fetch_outcome"
  disk_writable :: bool

text \<open>The content of \<^verbatim>\<open>./.last_send.json\<close> as \<^verbatim>\<open>JSON.parse\<close> reads it: the
  members \<^verbatim>\<open>date\<close> and \<^verbatim>\<open>period\<close>, \<open>None\<close> for one that is missing or not a
  string.\<close>

record send_record =
  date :: "jsstring option"
  period :: "jsstring option"

text \<open>The file is missing (or unreadable), or has a content, which parses or not.\<close>

datatype file_state = Missing | Content "send_record option"

text \<open>What \<^verbatim>\<open>console.error\<close> receives, one constructor for each call in the source.
  The progress lines of \<^verbatim>\<open>console.log\<close> are not part of the state.\<close>

datatype console_entry =
    NotionApiError parsed_body
  | SlackSendError jsstring
  | ControlFileError
  | MissingEnv "jsstring list"
  | ExecutionError js_error

text \<open>The state a run changes: the requests issued so far, oldest first, the error
  console, and the control file.\<close>

record world =
  calls :: "request list"
  console :: "console_entry list"
  last_send_file :: file_state

definition fetch :: "environment \<Rightarrow> request \<Rightarrow> world \<Rightarrow> fetch_outcome \<times> world" where
  "fetch env req w = (net env (length (calls w)) req, w\<lparr>calls := calls w @ [req]\<rparr>)"

definition is_query :: "request \<Rightarrow> bool" where
  "is_query req = (case req_body req of FilterBody _ \<Rightarrow> True | TextBody _ \<Rightarrow> False)"

definition is_send :: "request \<Rightarrow> bool" where
  "is_send req = (case req_body req of FilterBody _ \<Rightarrow> False | TextBody _ \<Rightarrow> True)"

text \<open>The requests issued between an earlier world and a later one.\<close>

definition issued :: "world \<Rightarrow> world \<Rightarrow> request list" where
  "issued w w' = drop (length (calls w)) (calls w')"

section \<open>Task query client\<close>

definition notion_request :: "config \<Rightarrow> query_filter \<Rightarrow> request" where
  "notion_request cfg flt =
     \<lparr>req_url = js ''https://api.notion.com/v1/databases/''
          @ template (NOTION_DATABASE_ID cfg) @ js ''/query'',
      req_method = js ''POST'',
      req_headers =
        [(js ''Authorization'', js ''Bearer '' @ template (NOTION_API_KEY cfg)),
         (js ''Content-Type'', js ''application/json''),
         (js ''Notion-Version'', js ''2022-06-28'')],
      req_body = FilterBody flt\<rparr>"

text \<open>\<^verbatim>\<open>queryNotion\<close>, the same in both entry points.  The body is parsed before
  \<^verbatim>\<open>res.ok\<close> is looked at.  On an ok response \<^verbatim>\<open>data.results || []\<close> throws
  when \<open>data\<close> is \<^verbatim>\<open>null\<close>, and finds no \<^verbatim>\<open>results\<close> in a value that is not an
  object.\<close>

definition queryNotion ::
  "config \<Rightarrow> environment \<Rightarrow> query_filter \<Rightarrow> world \<Rightarrow> (js_error + task list) \<times> world" where
  "queryNotion cfg env flt w =
     (case fetch env (notion_request cfg flt) w of
        (Rejected, w1) \<Rightarrow> (Inl FetchFailed, w1)
      | (Resolved res, w1) \<Rightarrow>
          (case body_json res of
             None \<Rightarrow> (Inl InvalidJson, w1)
           | Some data \<Rightarrow>
               if \<not> ok res
               then (Inr [], w1\<lparr>console := console w1 @ [NotionApiError data]\<rparr>)
               else
                 (case data of
                    JsonNull \<Rightarrow> (Inl TypeError, w1)
                  | JsonObject obj \<Rightarrow>
                      (Inr (case results obj of None \<Rightarrow> [] | Some r \<Rightarrow> r), w1)
                  | JsonOther _ \<Rightarrow> (Inr [], w1))))"

section \<open>Notification sender\<close>

definition slack_request :: "jsstring \<Rightarrow> jsstring \<Rightarrow> request" where
  "slack_request u message_text =
     \<lparr>req_url = u,
      req_method = js ''POST'',
      req_headers = [(js ''Content-Type'', js ''application/json'')],
      req_body = TextBody message_text\<rparr>"

text \<open>\<^verbatim>\<open>sendToSlack\<close> of the file-guarded entry point: a response that is not ok
  is logged and the call returns.\<close>

definition sendToSlack ::
  "config \<Rightarrow> environment \<Rightarrow> jsstring \<Rightarrow> world \<Rightarrow> (js_error + unit) \<times> world" where
  "sendToSlack cfg env message_text w =
     (case SLACK_WEBHOOK_URL cfg of
        None \<Rightarrow> (Inl TypeError, w)
      | Some u \<Rightarrow>
          (case fetch env (slack_request u message_text) w of
             (Rejected, w1) \<Rightarrow> (Inl FetchFailed, w1)
           | (Resolved res, w1) \<Rightarrow>
               if \<not> ok res
               then (Inr (), w1\<lparr>console := console w1 @ [SlackSendError (body_text res)]\<rparr>)
               else (Inr (), w1)))"

text \<open>\<^verbatim>\<open>sendToSlack\<close> of the request handler: a response that is not ok is logged
  and raised; otherwise the response is returned.\<close>

definition sendToSlack_handler ::
  "config \<Rightarrow> environment \<Rightarrow> jsstring \<Rightarrow> world \<Rightarrow> (js_error + response) \<times> world" where
  "sendToSlack_handler cfg env message_text w =
     (case SLACK_WEBHOOK_URL cfg of
        None \<Rightarrow> (Inl TypeError, w)
      | Some u \<Rightarrow>
          (case fetch env (slack_request u message_text) w of
             (Rejected, w1) \<Rightarrow> (Inl FetchFailed, w1)
           | (Resolved res, w1) \<Rightarrow>
               if \<not> ok res
               then (let errorText = body_text res
                     in (Inl (SlackError (res_status res) errorText),
                         w1\<lparr>console := console w1 @ [SlackSendError errorText]\<rparr>))
               else (Inr res, w1)))"

section \<open>Send-state store\<close>

text \<open>\<^verbatim>\<open>readLastSend\<close>: \<^verbatim>\<open>null\<close> when reading or parsing throws.\<close>

definition readLastSend :: "world \<Rightarrow> send_record option" where
  "readLastSend w =
     (case last_send_file w of
        Missing \<Rightarrow> None
      | Content None \<Rightarrow> None
      | Content (Some r) \<Rightarrow> Some r)"

text \<open>\<^verbatim>\<open>writeLastSend\<close>: a failed write is logged and swallowed.\<close>

definition writeLastSend :: "environment \<Rightarrow> send_record \<Rightarrow> world \<Rightarrow> world" where
  "writeLastSend env data w =
     (if disk_writable env then w\<lparr>last_send_file := Content (Some data)\<rparr>
      else w\<lparr>console := console w @ [ControlFileError]\<rparr>)"

section \<open>Orchestrator: the file-guarded entry point\<close>

definition concluida :: jsstring where
  "concluida = js ''Conclu'' @ [0xED] @ js ''da''"

text \<open>The two filters, the same object literals in both entry points.\<close>

definition todayTasks_filter :: "jsstring \<Rightarrow> query_filter" where
  "todayTasks_filter todayDate =
     And [DateEquals (js ''Due Date'') todayDate,
          StatusDoesNotEqual (js ''Status'') concluida]"

definition changedTasks_filter :: "jsstring \<Rightarrow> jsstring \<Rightarrow> query_filter" where
  "changedTasks_filter startOfDay_iso endOfDay_iso =
     And [LastEditedTime startOfDay_iso endOfDay_iso,
          Or [StatusEquals (js ''Status'') (js ''Em Progresso''),
              StatusEquals (js ''Status'') concluida]]"

definition morning_title :: jsstring where
  "morning_title = js ''Bom dia! Estas s'' @ [0xE3] @ js ''o as tarefas para hoje:''"

definition evening_title :: jsstring where
  "evening_title =
     js ''Resumo do dia '' @ [0x2013] @ js '' altera'' @ [0xE7, 0xF5] @ js ''es:''"

text \<open>The period of the file-guarded entry point: morning before 12.\<close>

definition run_period :: "datetime \<Rightarrow> jsstring" where
  "run_period now = (if hour now < 12 then js ''morning'' else js ''evening'')"

text \<open>
  \<^verbatim>\<open>run\<close> returns nothing in the source; the outcome tells its early
  \<^verbatim>\<open>return\<close> (\<open>Skipped\<close>) from the end of the function (\<open>Sent\<close>).  A thrown
  error is \<open>Inl\<close>.
\<close>

datatype run_outcome = Skipped | Sent

definition run ::
  "config \<Rightarrow> environment \<Rightarrow> datetime \<Rightarrow> world \<Rightarrow> (js_error + run_outcome) \<times> world" where
  "run cfg env now w =
     (let todayDate = toISODate now;
          prd = run_period now;
          lastSend = readLastSend w
      in if Option.bind lastSend date = Some todayDate
            \<and> Option.bind lastSend period = Some prd
         then (Inr Skipped, w)
         else
           (case queryNotion cfg env (todayTasks_filter todayDate) w of
              (Inl e, w1) \<Rightarrow> (Inl e, w1)
            | (Inr todayTasks, w1) \<Rightarrow>
                (case queryNotion cfg env
                        (changedTasks_filter (startOfDay now) (endOfDay now)) w1 of
                   (Inl e, w2) \<Rightarrow> (Inl e, w2)
                 | (Inr changedTasks, w2) \<Rightarrow>
                     (let morningMessage = formatTasks todayTasks morning_title;
                          eveningMessage = formatTasks changedTasks evening_title;
                          message_text =
                            (if prd = js ''morning'' then morningMessage
                             else eveningMessage)
                      in case sendToSlack cfg env message_text w2 of
                           (Inl e, w3) \<Rightarrow> (Inl e, w3)
                         | (Inr _, w3) \<Rightarrow>
                             (Inr Sent,
                              writeLastSend env
                                \<lparr>date = Some todayDate, period = Some prd\<rparr> w3)))))"

section \<open>Orchestrator: the request handler\<close>

definition morning_title_handler :: jsstring where
  "morning_title_handler =
     [0x2600, 0xFE0F] @ js '' Bom dia! Estas s'' @ [0xE3] @ js ''o as tarefas para hoje:''"

definition evening_title_handler :: jsstring where
  "evening_title_handler =
     [0xD83C, 0xDF19] @ js '' Resumo do dia '' @ [0x2013] @ js '' tarefas alteradas:''"

text \<open>The period of the request handler: morning before 15.\<close>

definition handler_period :: "datetime \<Rightarrow> jsstring" where
  "handler_period now = (if hour now < 15 then js ''morning'' else js ''evening'')"

record success_body =
  success :: bool
  message :: jsstring
  body_period :: jsstring
  todayTasksCount :: nat
  changedTasksCount :: nat
  timestamp :: jsstring

text \<open>
  The JSON bodies the handler answers with: the summary, the configuration error
  with its \<^verbatim>\<open>missing\<close> list, and a caught error (its message and stack).
\<close>

datatype response_json =
    SuccessJson success_body
  | MissingJson jsstring "jsstring list"
  | ErrorJson js_error

record http_response =
  code :: nat
  json_body :: response_json

definition env_error_text :: jsstring where
  "env_error_text =
     js ''Vari'' @ [0xE1] @ js ''veis de ambiente n'' @ [0xE3] @ js ''o configuradas''"

text \<open>The \<^verbatim>\<open>missing\<close> array: one \<^verbatim>\<open>push\<close> for each variable that is falsy
  (unset or empty), in the order of the source.\<close>

definition missing_vars :: "config \<Rightarrow> jsstring list" where
  "missing_vars cfg =
     (if \<not> truthy (NOTION_API_KEY cfg) then [js ''NOTION_API_KEY''] else [])
     @ (if \<not> truthy (NOTION_DATABASE_ID cfg) then [js ''NOTION_DATABASE_ID''] else [])
     @ (if \<not> truthy (SLACK_WEBHOOK_URL cfg) then [js ''SLACK_WEBHOOK_URL''] else [])"

text \<open>The body of the \<^verbatim>\<open>try\<close> block.\<close>

definition handler_try ::
  "config \<Rightarrow> environment \<Rightarrow> datetime \<Rightarrow> world \<Rightarrow> (js_error + http_response) \<times> world" where
  "handler_try cfg env now w =
     (if \<not> truthy (NOTION_API_KEY cfg) \<or> \<not> truthy (NOTION_DATABASE_ID cfg)
         \<or> \<not> truthy (SLACK_WEBHOOK_URL cfg)
      then
        (let missing = missing_vars cfg
         in (Inr \<lparr>code = 500, json_body = MissingJson env_error_text missing\<rparr>,
             w\<lparr>console := console w @ [MissingEnv missing]\<rparr>))
      else
        (let todayDate = toISODate now;
             prd = handler_period now
         in case queryNotion cfg env (todayTasks_filter todayDate) w of
              (Inl e, w1) \<Rightarrow> (Inl e, w1)
            | (Inr todayTasks, w1) \<Rightarrow>
                (case queryNotion cfg env
                        (changedTasks_filter (startOfDay now) (endOfDay now)) w1 of
                   (Inl e, w2) \<Rightarrow> (Inl e, w2)
                 | (Inr changedTasks, w2) \<Rightarrow>
                     (let morningMessage = formatTasks todayTasks morning_title_handler;
                          eveningMessage = formatTasks changedTasks evening_title_handler;
                          message_text =
                            (if prd = js ''morning'' then morningMessage
                             else eveningMessage)
                      in case sendToSlack_handler cfg env message_text w2 of
                           (Inl e, w3) \<Rightarrow> (Inl e, w3)
                         | (Inr _, w3) \<Rightarrow>
                             (Inr \<lparr>code = 200,
                                   json_body = SuccessJson
                                     \<lparr>success = True,
                                      message = js ''Mensagem enviada com sucesso'',
                                      body_period = prd,
                                      todayTasksCount = length todayTasks,
                                      changedTasksCount = length changedTasks,
                                      timestamp = toISO now\<rparr>\<rparr>,
                              w3)))))"

text \<open>\<^verbatim>\<open>handler\<close>: the \<^verbatim>\<open>catch\<close> clause logs the error and answers 500.\<close>

definition handler ::
  "config \<Rightarrow> environment \<Rightarrow> datetime \<Rightarrow> world \<Rightarrow> http_response \<times> world" where
  "handler cfg env now w =
     (case handler_try cfg env now w of
        (Inr r, w') \<Rightarrow> (r, w')
      | (Inl e, w') \<Rightarrow>
          (\<lparr>code = 500, json_body = ErrorJson e\<rparr>,
           w'\<lparr>console := console w' @ [ExecutionError e]\<rparr>))"

section \<open>The formatter's lines, as the specification words them\<close>









section \<open>Concrete runs\<close>

definition quoted :: "jsstring \<Rightarrow> jsstring" where
  "quoted s = [0x22] @ s @ [0x22]"



definition ex_task_bare :: task where
  "ex_task_bare = \<lparr>task_id = js ''4d-5e'', task_properties = None\<rparr>"

definition ex_cfg :: config where
  "ex_cfg =
     \<lparr>NOTION_API_KEY = Some (js ''secret_key''),
      NOTION_DATABASE_ID = Some (js ''db1''),
      SLACK_WEBHOOK_URL = Some (js ''https://hooks.slack.com/services/T/B/x'')\<rparr>"

text \<open>A configuration with only the database identifier set.\<close>

definition ex_cfg_partial :: config where
  "ex_cfg_partial =
     \<lparr>NOTION_API_KEY = None,
      NOTION_DATABASE_ID = Some (js ''db1''),
      SLACK_WEBHOOK_URL = None\<rparr>"

definition ex_now :: datetime where
  "ex_now =
     \<lparr>toISO = js ''2024-05-01T09:30:00.000-03:00'',
      toISODate = js ''2024-05-01'',
      hour = 9,
      startOfDay = js ''2024-05-01T00:00:00.000-03:00'',
      endOfDay = js ''2024-05-01T23:59:59.999-03:00''\<rparr>"

definition ex_world :: world where
  "ex_world = \<lparr>calls = [], console = [], last_send_file = Missing\<rparr>"

text \<open>The task database answers 200 with \<^verbatim>\<open>{"results":[{"id":"4d-5e"}]}\<close>.\<close>

definition notion_page :: response where
  "notion_page =
     \<lparr>res_status = 200,
      body_text = js ''{'' @ quoted (js ''results'') @ js '':[{'' @ quoted (js ''id'')
        @ js '':'' @ quoted (js ''4d-5e'') @ js ''}]}'',
      body_json = Some (JsonObject \<lparr>results = Some [ex_task_bare], other_members = []\<rparr>)\<rparr>"

text \<open>The task database answers 400 with \<^verbatim>\<open>{"code":"validation_error"}\<close>.\<close>

definition notion_invalid :: response where
  "notion_invalid =
     \<lparr>res_status = 400,
      body_text = js ''{'' @ quoted (js ''code'') @ js '':'' @ quoted (js ''validation_error'')
        @ js ''}'',
      body_json = Some (JsonObject
        \<lparr>results = None,
         other_members = quoted (js ''code'') @ js '':'' @ quoted (js ''validation_error'')\<rparr>)\<rparr>"

text \<open>The task database answers 200 with \<^verbatim>\<open>{}\<close>.\<close>

definition notion_no_results :: response where
  "notion_no_results =
     \<lparr>res_status = 200,
      body_text = js ''{}'',
      body_json = Some (JsonObject \<lparr>results = None, other_members = []\<rparr>)\<rparr>"

text \<open>A gateway in front of the task database answers 502 with an HTML page.\<close>

definition bad_gateway :: response where
  "bad_gateway =
     \<lparr>res_status = 502,
      body_text = js ''<html>502 Bad Gateway</html>'',
      body_json = None\<rparr>"

text \<open>The task database answers 200 with \<^verbatim>\<open>null\<close>, and 503 with \<^verbatim>\<open>null\<close>.\<close>

definition notion_null :: response where
  "notion_null = \<lparr>res_status = 200, body_text = js ''null'', body_json = Some JsonNull\<rparr>"

definition notion_null_unavailable :: response where
  "notion_null_unavailable =
     \<lparr>res_status = 503, body_text = js ''null'', body_json = Some JsonNull\<rparr>"

definition slack_ok :: response where
  "slack_ok = \<lparr>res_status = 200, body_text = js ''ok'', body_json = None\<rparr>"

definition slack_down :: response where
  "slack_down = \<lparr>res_status = 500, body_text = js ''no_service'', body_json = None\<rparr>"

text \<open>The task database answers 200 with
  \<^verbatim>\<open>{"results":[{"id":"4d-5e"},{"id":"7a-8b"}]}\<close>.\<close>

definition ex_task_other :: task where
  "ex_task_other = \<lparr>task_id = js ''7a-8b'', task_properties = None\<rparr>"

definition notion_two_pages :: response where
  "notion_two_pages =
     \<lparr>res_status = 200,
      body_text = js ''{'' @ quoted (js ''results'') @ js '':[{'' @ quoted (js ''id'')
        @ js '':'' @ quoted (js ''4d-5e'') @ js ''},{'' @ quoted (js ''id'')
        @ js '':'' @ quoted (js ''7a-8b'') @ js ''}]}'',
      body_json = Some (JsonObject
        \<lparr>results = Some [ex_task_bare, ex_task_other], other_members = []\<rparr>)\<rparr>"

text \<open>A network that answers the \<open>n\<close>-th request with the \<open>n\<close>-th response of a
  list, and lets no request through after the last.\<close>

definition ex_net :: "response list \<Rightarrow> nat \<Rightarrow> request \<Rightarrow> fetch_outcome" where
  "ex_net rs n req = (if n < length rs then Resolved (rs ! n) else Rejected)"

definition ex_env :: environment where
  "ex_env = \<lparr>net = ex_net [notion_page, notion_two_pages, slack_ok], disk_writable = True\<rparr>"

definition ex_env_slack_down :: environment where
  "ex_env_slack_down =
     \<lparr>net = ex_net [notion_page, notion_two_pages, slack_down], disk_writable = True\<rparr>"

definition ex_env_gateway :: environment where
  "ex_env_gateway = \<lparr>net = ex_net [bad_gateway], disk_writable = True\<rparr>"

definition ex_env_invalid :: environment where
  "ex_env_invalid = \<lparr>net = ex_net [notion_invalid], disk_writable = True\<rparr>"

definition ex_env_no_results :: environment where
  "ex_env_no_results = \<lparr>net = ex_net [notion_no_results], disk_writable = True\<rparr>"

definition ex_env_null :: environment where
  "ex_env_null = \<lparr>net = ex_net [notion_null], disk_writable = True\<rparr>"

definition ex_env_null_unavailable :: environment where
  "ex_env_null_unavailable = \<lparr>net = ex_net [notion_null_unavailable], disk_writable = True\<rparr>"

definition ex_env_offline :: environment where
  "ex_env_offline = \<lparr>net = ex_net [], disk_writable = True\<rparr>"

definition ex_env_readonly :: environment where
  "ex_env_readonly =
     \<lparr>net = ex_net [notion_page, notion_two_pages, slack_ok], disk_writable = False\<rparr>"


text \<open>The task database answers 200 with \<^verbatim>\<open>[]\<close>.\<close>

definition notion_array :: response where
  "notion_array =
     \<lparr>res_status = 200, body_text = js ''[]'', body_json = Some (JsonOther (js ''[]''))\<rparr>"

definition ex_env_array :: environment where
  "ex_env_array = \<lparr>net = ex_net [notion_array], disk_writable = True\<rparr>"

text \<open>The control file after a morning send on the day of \<open>ex_now\<close>.\<close>

definition ex_world_sent :: world where
  "ex_world_sent =
     \<lparr>calls = [], console = [],
      last_send_file = Content
        (Some \<lparr>date = Some (js ''2024-05-01''), period = Some (js ''morning'')\<rparr>)\<rparr>"

text \<open>Later the same day: 13:10 and 20:45.\<close>

definition ex_afternoon :: datetime where
  "ex_afternoon =
     \<lparr>toISO = js ''2024-05-01T13:10:00.000-03:00'',
      toISODate = js ''2024-05-01'',
      hour = 13,
      startOfDay = js ''2024-05-01T00:00:00.000-03:00'',
      endOfDay = js ''2024-05-01T23:59:59.999-03:00''\<rparr>"

definition ex_night :: datetime where
  "ex_night =
     \<lparr>toISO = js ''2024-05-01T20:45:00.000-03:00'',
      toISODate = js ''2024-05-01'',
      hour = 20,
      startOfDay = js ''2024-05-01T00:00:00.000-03:00'',
      endOfDay = js ''2024-05-01T23:59:59.999-03:00''\<rparr>"

section \<open>Helper facts\<close>

lemma hyphen_not_in_prefix: "hyphen \<notin> set (js ''https://www.notion.so/'')"
  by (simp add: js_def hyphen_def)














lemma queryNotion_effect:
  assumes "queryNotion cfg env flt w = (r, w')"
  shows "calls w' = calls w @ [notion_request cfg flt] \<and> last_send_file w' = last_send_file w"
  using assms
  by (auto simp: queryNotion_def fetch_def
        split: fetch_outcome.splits option.splits if_splits parsed_body.splits)

lemma sendToSlack_effect:
  assumes "sendToSlack cfg env m w = (Inr u, w')"
  shows "\<exists>url. SLACK_WEBHOOK_URL cfg = Some url \<and> calls w' = calls w @ [slack_request url m]
           \<and> last_send_file w' = last_send_file w"
  using assms
  by (auto simp: sendToSlack_def fetch_def split: fetch_outcome.splits option.splits if_splits)

lemma sendToSlack_keeps_file:
  assumes "sendToSlack cfg env m w = (r, w')"
  shows "last_send_file w' = last_send_file w"
  using assms
  by (auto simp: sendToSlack_def fetch_def split: fetch_outcome.splits option.splits if_splits)

lemma writeLastSend_effect:
  "calls (writeLastSend env d w) = calls w
   \<and> last_send_file (writeLastSend env d w)
       = (if disk_writable env then Content (Some d) else last_send_file w)"
  by (simp add: writeLastSend_def)

lemma stored_matches:
  "(Option.bind (readLastSend w) date = Some d \<and> Option.bind (readLastSend w) period = Some p)
     = (last_send_file w = Content (Some \<lparr>date = Some d, period = Some p\<rparr>))"
  by (auto simp: readLastSend_def split: file_state.splits option.splits)

lemma is_query_notion_request:
  "is_query (notion_request cfg flt) \<and> \<not> is_send (notion_request cfg flt)"
  by (simp add: is_query_def is_send_def notion_request_def)

lemma is_send_slack_request: "is_send (slack_request u m) \<and> \<not> is_query (slack_request u m)"
  by (simp add: is_query_def is_send_def slack_request_def)

text \<open>A run that throws leaves the control file as it was.\<close>

lemma run_error_keeps_file:
  assumes "run cfg env now w = (Inl e, w')"
  shows "last_send_file w' = last_send_file w"
  using assms unfolding run_def Let_def
  by (auto split: prod.splits sum.splits if_splits
        dest!: queryNotion_effect sendToSlack_keeps_file)

lemma names_distinct:
  "js ''NOTION_API_KEY'' \<noteq> js ''NOTION_DATABASE_ID''"
  "js ''NOTION_API_KEY'' \<noteq> js ''SLACK_WEBHOOK_URL''"
  "js ''NOTION_DATABASE_ID'' \<noteq> js ''SLACK_WEBHOOK_URL''"
  by (simp_all add: js_def)

lemma handler_missing:
  assumes "\<not> truthy (NOTION_API_KEY cfg) \<or> \<not> truthy (NOTION_DATABASE_ID cfg)
         \<or> \<not> truthy (SLACK_WEBHOOK_URL cfg)"
  shows "handler cfg env now w
             = (\<lparr>code = 500, json_body = MissingJson env_error_text (missing_vars cfg)\<rparr>,
                w\<lparr>console := console w @ [MissingEnv (missing_vars cfg)]\<rparr>)"
  using assms unfolding handler_def handler_try_def Let_def by simp

lemma missing_vars_iff:
  "(js ''NOTION_API_KEY'' \<in> set (missing_vars cfg)) = (\<not> truthy (NOTION_API_KEY cfg))"
  "(js ''NOTION_DATABASE_ID'' \<in> set (missing_vars cfg)) = (\<not> truthy (NOTION_DATABASE_ID cfg))"
  "(js ''SLACK_WEBHOOK_URL'' \<in> set (missing_vars cfg)) = (\<not> truthy (SLACK_WEBHOOK_URL cfg))"
  using names_distinct by (auto simp: missing_vars_def)

lemmas example_defs =
  ex_cfg_def ex_now_def ex_world_def ex_net_def notion_page_def notion_two_pages_def
  slack_ok_def slack_down_def ex_env_def ex_env_slack_down_def ex_env_offline_def
  ex_env_readonly_def ex_task_bare_def ex_task_other_def quoted_def

lemmas run_defs =
  run_def queryNotion_def fetch_def notion_request_def sendToSlack_def slack_request_def
  readLastSend_def writeLastSend_def ok_def run_period_def todayTasks_filter_def
  changedTasks_filter_def template_def issued_def is_query_def is_send_def Let_def

section \<open>Send-state guard\<close>

text \<open>
  C1.  In the file-guarded entry point, when the stored record is (today's date, the
  current period), the run returns early with the world unchanged: it issues no
  task-database query and no webhook send.
\<close>

theorem run_skips_when_already_sent:
  assumes "last_send_file w
             = Content (Some \<lparr>date = Some (toISODate now), period = Some (run_period now)\<rparr>)"
  shows "run cfg env now w = (Inr Skipped, w)
         \<and> filter is_query (issued w (snd (run cfg env now w))) = []
         \<and> filter is_send (issued w (snd (run cfg env now w))) = []"
proof -
  from assms have "run cfg env now w = (Inr Skipped, w)"
    by (simp add: run_def Let_def stored_matches)
  then show ?thesis by (simp add: issued_def)
qed

theorem run_skips_when_already_sent_witness:
  "last_send_file ex_world_sent
     = Content (Some \<lparr>date = Some (toISODate ex_now), period = Some (run_period ex_now)\<rparr>)
   \<and> run ex_cfg ex_env ex_now ex_world_sent = (Inr Skipped, ex_world_sent)
   \<and> filter is_query (issued ex_world_sent (snd (run ex_cfg ex_env ex_now ex_world_sent))) = []
   \<and> filter is_send (issued ex_world_sent (snd (run ex_cfg ex_env ex_now ex_world_sent))) = []"
proof -
  have h: "last_send_file ex_world_sent
     = Content (Some \<lparr>date = Some (toISODate ex_now), period = Some (run_period ex_now)\<rparr>)"
    by (simp add: ex_world_sent_def ex_now_def run_period_def)
  from run_skips_when_already_sent [OF h, of ex_cfg ex_env] h show ?thesis by blast
qed

text \<open>
  C7, as the code has it.  In the file-guarded entry point, a run whose stored record
  is absent or differs from (today, period), and in which no call throws, issues the
  two task-database queries and then the one webhook send, and nothing else; after
  the send it writes the record (today, period), which reaches the file when the file
  can be written.
\<close>

theorem run_sends_when_stale:
  assumes stale: "last_send_file w
             \<noteq> Content (Some \<lparr>date = Some (toISODate now), period = Some (run_period now)\<rparr>)"
      and completes: "run cfg env now w = (Inr out, w')"
  shows "out = Sent
         \<and> (\<exists>u m. issued w w'
               = [notion_request cfg (todayTasks_filter (toISODate now)),
                  notion_request cfg (changedTasks_filter (startOfDay now) (endOfDay now)),
                  slack_request u m])
         \<and> length (filter is_query (issued w w')) = 2
         \<and> length (filter is_send (issued w w')) = 1
         \<and> last_send_file w'
             = (if disk_writable env
                then Content (Some \<lparr>date = Some (toISODate now), period = Some (run_period now)\<rparr>)
                else last_send_file w)"
proof -
  from stale have ns: "\<not> (Option.bind (readLastSend w) date = Some (toISODate now)
      \<and> Option.bind (readLastSend w) period = Some (run_period now))"
    by (simp add: stored_matches)
  from completes ns obtain ts w1 cs w2 m w3 where
      q1: "queryNotion cfg env (todayTasks_filter (toISODate now)) w = (Inr ts, w1)"
    and q2: "queryNotion cfg env (changedTasks_filter (startOfDay now) (endOfDay now)) w1
               = (Inr cs, w2)"
    and s: "sendToSlack cfg env m w2 = (Inr (), w3)"
    and out: "out = Sent"
    and w': "w' = writeLastSend env
                    \<lparr>date = Some (toISODate now), period = Some (run_period now)\<rparr> w3"
    unfolding run_def Let_def
    by (auto split: prod.splits sum.splits if_splits)
  from queryNotion_effect [OF q1] queryNotion_effect [OF q2] sendToSlack_effect [OF s]
  obtain u where
      c: "calls w3 = calls w @ [notion_request cfg (todayTasks_filter (toISODate now)),
            notion_request cfg (changedTasks_filter (startOfDay now) (endOfDay now)),
            slack_request u m]"
    and f: "last_send_file w3 = last_send_file w"
    by auto
  from c w' have i: "issued w w' = [notion_request cfg (todayTasks_filter (toISODate now)),
            notion_request cfg (changedTasks_filter (startOfDay now) (endOfDay now)),
            slack_request u m]"
    by (simp add: issued_def writeLastSend_effect)
  from f w' have l: "last_send_file w' = (if disk_writable env
                then Content (Some \<lparr>date = Some (toISODate now), period = Some (run_period now)\<rparr>)
                else last_send_file w)"
    by (simp add: writeLastSend_effect)
  from i have "length (filter is_query (issued w w')) = 2"
    and "length (filter is_send (issued w w')) = 1"
    by (simp_all add: is_query_notion_request is_send_slack_request)
  with out i l show ?thesis by blast
qed

theorem run_sends_when_stale_witness:
  "last_send_file ex_world
     \<noteq> Content (Some \<lparr>date = Some (toISODate ex_now), period = Some (run_period ex_now)\<rparr>)
   \<and> fst (run ex_cfg ex_env ex_now ex_world) = Inr Sent
   \<and> length (filter is_query (issued ex_world (snd (run ex_cfg ex_env ex_now ex_world)))) = 2
   \<and> length (filter is_send (issued ex_world (snd (run ex_cfg ex_env ex_now ex_world)))) = 1
   \<and> last_send_file (snd (run ex_cfg ex_env ex_now ex_world))
       = Content (Some \<lparr>date = Some (js ''2024-05-01''), period = Some (js ''morning'')\<rparr>)"
proof -
  have stale: "last_send_file ex_world
     \<noteq> Content (Some \<lparr>date = Some (toISODate ex_now), period = Some (run_period ex_now)\<rparr>)"
    by (simp add: ex_world_def)
  have sent: "fst (run ex_cfg ex_env ex_now ex_world) = Inr Sent"
    by (simp add: example_defs run_defs)
  then have completes: "run ex_cfg ex_env ex_now ex_world
      = (Inr Sent, snd (run ex_cfg ex_env ex_now ex_world))"
    by (simp add: prod_eq_iff)
  have today: "toISODate ex_now = js ''2024-05-01''" and prd: "run_period ex_now = js ''morning''"
    and disk: "disk_writable ex_env"
    by (simp_all add: ex_now_def run_period_def ex_env_def)
  note facts = run_sends_when_stale [OF stale completes]
  from facts disk have "last_send_file (snd (run ex_cfg ex_env ex_now ex_world))
       = Content (Some \<lparr>date = Some (js ''2024-05-01''), period = Some (js ''morning'')\<rparr>)"
    by (simp add: today prd)
  with facts stale sent show ?thesis by blast
qed

text \<open>
  C7 as stated fails: with the record absent, a run whose first request is rejected
  issues one query and no send and writes nothing; and a run that sends while the
  file cannot be written leaves the record absent.
\<close>

theorem run_sends_when_stale_counterexample:
  "last_send_file ex_world
     \<noteq> Content (Some \<lparr>date = Some (toISODate ex_now), period = Some (run_period ex_now)\<rparr>)
   \<and> fst (run ex_cfg ex_env_offline ex_now ex_world) = Inl FetchFailed
   \<and> length (filter is_query
        (issued ex_world (snd (run ex_cfg ex_env_offline ex_now ex_world)))) = 1
   \<and> length (filter is_send
        (issued ex_world (snd (run ex_cfg ex_env_offline ex_now ex_world)))) = 0
   \<and> last_send_file (snd (run ex_cfg ex_env_offline ex_now ex_world)) = Missing
   \<and> fst (run ex_cfg ex_env_readonly ex_now ex_world) = Inr Sent
   \<and> last_send_file (snd (run ex_cfg ex_env_readonly ex_now ex_world)) = Missing"
  by (simp add: example_defs run_defs)

section \<open>A failed send\<close>

text \<open>
  C2.  The file-guarded entry point at a webhook that answers 500: the run logs the
  failure, still ends as sent and writes the record (today, morning); the next run
  for the same date and period skips and issues no request.
\<close>

theorem run_records_failed_send:
  "\<not> ok slack_down
   \<and> fst (run ex_cfg ex_env_slack_down ex_now ex_world) = Inr Sent
   \<and> console (snd (run ex_cfg ex_env_slack_down ex_now ex_world))
       = [SlackSendError (js ''no_service'')]
   \<and> last_send_file (snd (run ex_cfg ex_env_slack_down ex_now ex_world))
       = Content (Some \<lparr>date = Some (js ''2024-05-01''), period = Some (js ''morning'')\<rparr>)
   \<and> fst (run ex_cfg ex_env_slack_down ex_now
             (snd (run ex_cfg ex_env_slack_down ex_now ex_world))) = Inr Skipped
   \<and> issued (snd (run ex_cfg ex_env_slack_down ex_now ex_world))
        (snd (run ex_cfg ex_env_slack_down ex_now
               (snd (run ex_cfg ex_env_slack_down ex_now ex_world)))) = []"
  by (simp add: example_defs run_defs)

section \<open>Configuration check of the request handler\<close>

text \<open>
  C3.  In the request handler, when any of the three required variables is absent,
  the answer is 500 with the \<^verbatim>\<open>missing\<close> list, and that list names every absent
  variable; a name is in the list exactly when its variable is unset or empty.
\<close>

theorem handler_lists_every_missing_variable:
  assumes "NOTION_API_KEY cfg = None \<or> NOTION_DATABASE_ID cfg = None
           \<or> SLACK_WEBHOOK_URL cfg = None"
  shows "handler cfg env now w
           = (\<lparr>code = 500, json_body = MissingJson env_error_text (missing_vars cfg)\<rparr>,
              w\<lparr>console := console w @ [MissingEnv (missing_vars cfg)]\<rparr>)
         \<and> (NOTION_API_KEY cfg = None \<longrightarrow> js ''NOTION_API_KEY'' \<in> set (missing_vars cfg))
         \<and> (NOTION_DATABASE_ID cfg = None \<longrightarrow> js ''NOTION_DATABASE_ID'' \<in> set (missing_vars cfg))
         \<and> (SLACK_WEBHOOK_URL cfg = None \<longrightarrow> js ''SLACK_WEBHOOK_URL'' \<in> set (missing_vars cfg))
         \<and> (js ''NOTION_API_KEY'' \<in> set (missing_vars cfg)) = (\<not> truthy (NOTION_API_KEY cfg))
         \<and> (js ''NOTION_DATABASE_ID'' \<in> set (missing_vars cfg))
             = (\<not> truthy (NOTION_DATABASE_ID cfg))
         \<and> (js ''SLACK_WEBHOOK_URL'' \<in> set (missing_vars cfg))
             = (\<not> truthy (SLACK_WEBHOOK_URL cfg))"
proof -
  from assms have "\<not> truthy (NOTION_API_KEY cfg) \<or> \<not> truthy (NOTION_DATABASE_ID cfg)
         \<or> \<not> truthy (SLACK_WEBHOOK_URL cfg)"
    by (auto simp: truthy_def)
  then have "handler cfg env now w
           = (\<lparr>code = 500, json_body = MissingJson env_error_text (missing_vars cfg)\<rparr>,
              w\<lparr>console := console w @ [MissingEnv (missing_vars cfg)]\<rparr>)"
    by (rule handler_missing)
  moreover have "truthy None = False"
    by (simp add: truthy_def)
  ultimately show ?thesis
    by (simp add: missing_vars_iff)
qed

theorem handler_lists_every_missing_variable_witness:
  "(NOTION_API_KEY ex_cfg_partial = None \<or> NOTION_DATABASE_ID ex_cfg_partial = None
      \<or> SLACK_WEBHOOK_URL ex_cfg_partial = None)
   \<and> fst (handler ex_cfg_partial ex_env ex_now ex_world)
       = \<lparr>code = 500,
          json_body = MissingJson env_error_text
            [js ''NOTION_API_KEY'', js ''SLACK_WEBHOOK_URL'']\<rparr>
   \<and> issued ex_world (snd (handler ex_cfg_partial ex_env ex_now ex_world)) = []"
proof -
  have h: "NOTION_API_KEY ex_cfg_partial = None \<or> NOTION_DATABASE_ID ex_cfg_partial = None
      \<or> SLACK_WEBHOOK_URL ex_cfg_partial = None"
    by (simp add: ex_cfg_partial_def)
  have m: "missing_vars ex_cfg_partial = [js ''NOTION_API_KEY'', js ''SLACK_WEBHOOK_URL'']"
    by (simp add: missing_vars_def ex_cfg_partial_def truthy_def js_def)
  from handler_lists_every_missing_variable [OF h, of ex_env ex_now ex_world] h
  show ?thesis by (simp add: m issued_def)
qed

section \<open>Formatter\<close>

text \<open>
  C4, as the code has it.  For every title, formatting the empty task list yields the
  title between two asterisks, a newline, and the no-tasks literal: two strings joined
  by a newline.
\<close>

theorem formatTasks_empty:
  "formatTasks [] ttl = js ''*'' @ ttl @ js ''*'' @ [newline] @ no_tasks
   \<and> formatTasks [] ttl = join [newline] [js ''*'' @ ttl @ js ''*'', no_tasks]"
  by (simp add: formatTasks_def)

text \<open>C4 as stated fails: the first line is not the bare title.\<close>

theorem formatTasks_empty_counterexample:
  "formatTasks [] (js ''a'') \<noteq> js ''a'' @ [newline] @ no_tasks"
  by (simp add: formatTasks_def js_def)




text \<open>
  C9.  The URL of a task is the link prefix followed by the identifier with every
  hyphen deleted, and no hyphen occurs in it.
\<close>

theorem getTaskUrl_strips_hyphens:
  "getTaskUrl t = js ''https://www.notion.so/'' @ filter (\<lambda>c. c \<noteq> hyphen) (task_id t)
   \<and> hyphen \<notin> set (getTaskUrl t)"
  using hyphen_not_in_prefix by (simp add: getTaskUrl_def)

section \<open>Task query client\<close>

text \<open>
  C6, as the code has it.  When the request is answered and the body of the answer
  parses as JSON: on a status outside 200..299 the payload is logged and the result is
  the empty list, with nothing thrown; on a status inside 200..299 and a body other
  than \<^verbatim>\<open>null\<close> the result is the \<^verbatim>\<open>results\<close> list of the body, or the empty
  list when the body has no \<^verbatim>\<open>results\<close> or a falsy one, and nothing is logged.  The
  \<^verbatim>\<open>results\<close> member of an object is absent, falsy or a list of tasks.
\<close>

theorem queryNotion_on_json_response:
  assumes "net env (length (calls w)) (notion_request cfg flt) = Resolved res"
      and "body_json res = Some data"
  shows "(\<not> ok res \<longrightarrow>
            queryNotion cfg env flt w
              = (Inr [], w\<lparr>calls := calls w @ [notion_request cfg flt],
                           console := console w @ [NotionApiError data]\<rparr>))
         \<and> (ok res \<longrightarrow>
              (\<forall>obj. data = JsonObject obj \<longrightarrow>
                 queryNotion cfg env flt w
                   = (Inr (case results obj of None \<Rightarrow> [] | Some r \<Rightarrow> r),
                      w\<lparr>calls := calls w @ [notion_request cfg flt]\<rparr>))
              \<and> (\<forall>txt. data = JsonOther txt \<longrightarrow>
                 queryNotion cfg env flt w
                   = (Inr [], w\<lparr>calls := calls w @ [notion_request cfg flt]\<rparr>)))"
  using assms by (simp add: queryNotion_def fetch_def)

theorem queryNotion_on_json_response_witness:
  "net ex_env_invalid (length (calls ex_world))
       (notion_request ex_cfg (todayTasks_filter (js ''2024-05-01''))) = Resolved notion_invalid
   \<and> \<not> ok notion_invalid
   \<and> fst (queryNotion ex_cfg ex_env_invalid (todayTasks_filter (js ''2024-05-01'')) ex_world)
       = Inr []
   \<and> console (snd (queryNotion ex_cfg ex_env_invalid
                     (todayTasks_filter (js ''2024-05-01'')) ex_world))
       = [NotionApiError (the (body_json notion_invalid))]
   \<and> net ex_env_null_unavailable (length (calls ex_world))
       (notion_request ex_cfg (todayTasks_filter (js ''2024-05-01'')))
       = Resolved notion_null_unavailable
   \<and> \<not> ok notion_null_unavailable
   \<and> fst (queryNotion ex_cfg ex_env_null_unavailable
            (todayTasks_filter (js ''2024-05-01'')) ex_world) = Inr []
   \<and> console (snd (queryNotion ex_cfg ex_env_null_unavailable
                     (todayTasks_filter (js ''2024-05-01'')) ex_world))
       = [NotionApiError JsonNull]
   \<and> net ex_env (length (calls ex_world))
       (notion_request ex_cfg (todayTasks_filter (js ''2024-05-01''))) = Resolved notion_page
   \<and> ok notion_page
   \<and> queryNotion ex_cfg ex_env (todayTasks_filter (js ''2024-05-01'')) ex_world
       = (Inr [ex_task_bare],
          ex_world\<lparr>calls := [notion_request ex_cfg (todayTasks_filter (js ''2024-05-01''))]\<rparr>)
   \<and> net ex_env_no_results (length (calls ex_world))
       (notion_request ex_cfg (todayTasks_filter (js ''2024-05-01'')))
       = Resolved notion_no_results
   \<and> ok notion_no_results
   \<and> fst (queryNotion ex_cfg ex_env_no_results (todayTasks_filter (js ''2024-05-01''))
            ex_world) = Inr []
   \<and> net ex_env_array (length (calls ex_world))
       (notion_request ex_cfg (todayTasks_filter (js ''2024-05-01''))) = Resolved notion_array
   \<and> ok notion_array
   \<and> fst (queryNotion ex_cfg ex_env_array (todayTasks_filter (js ''2024-05-01'')) ex_world)
       = Inr []"
proof -
  let ?flt = "todayTasks_filter (js ''2024-05-01'')"
  have n1: "net ex_env_invalid (length (calls ex_world)) (notion_request ex_cfg ?flt)
      = Resolved notion_invalid"
    and n2: "net ex_env (length (calls ex_world)) (notion_request ex_cfg ?flt)
      = Resolved notion_page"
    and n3: "net ex_env_no_results (length (calls ex_world)) (notion_request ex_cfg ?flt)
      = Resolved notion_no_results"
    and n4: "net ex_env_null_unavailable (length (calls ex_world)) (notion_request ex_cfg ?flt)
      = Resolved notion_null_unavailable"
    and n5: "net ex_env_array (length (calls ex_world)) (notion_request ex_cfg ?flt)
      = Resolved notion_array"
    by (simp_all add: ex_env_invalid_def ex_env_def ex_env_no_results_def
          ex_env_null_unavailable_def ex_env_array_def ex_net_def ex_world_def)
  have j1: "body_json notion_invalid = Some (the (body_json notion_invalid))"
    and j2: "body_json notion_page
      = Some (JsonObject \<lparr>results = Some [ex_task_bare], other_members = []\<rparr>)"
    and j3: "body_json notion_no_results
      = Some (JsonObject \<lparr>results = None, other_members = []\<rparr>)"
    and j4: "body_json notion_null_unavailable = Some JsonNull"
    and j5: "body_json notion_array = Some (JsonOther (js ''[]''))"
    by (simp_all add: notion_invalid_def notion_page_def notion_no_results_def
          notion_null_unavailable_def notion_array_def)
  have o1: "\<not> ok notion_invalid" and o2: "ok notion_page" and o3: "ok notion_no_results"
    and o4: "\<not> ok notion_null_unavailable" and o5: "ok notion_array"
    by (simp_all add: ok_def notion_invalid_def notion_page_def notion_no_results_def
          notion_null_unavailable_def notion_array_def)
  have c: "calls ex_world = []" and k: "console ex_world = []"
    by (simp_all add: ex_world_def)
  from queryNotion_on_json_response [OF n1 j1] queryNotion_on_json_response [OF n2 j2]
    queryNotion_on_json_response [OF n3 j3] queryNotion_on_json_response [OF n4 j4]
    queryNotion_on_json_response [OF n5 j5] n1 n2 n3 n4 n5 o1 o2 o3 o4 o5
  show ?thesis by (simp add: c k)
qed

text \<open>
  C6 as stated fails: a 502 whose body is an HTML page is a non-success response, and
  the call throws on it; a 200 whose body is \<^verbatim>\<open>null\<close> is a success response with
  no results list, and the call throws on it.
\<close>

theorem queryNotion_counterexample:
  "net ex_env_gateway (length (calls ex_world))
       (notion_request ex_cfg (todayTasks_filter (js ''2024-05-01''))) = Resolved bad_gateway
   \<and> \<not> ok bad_gateway
   \<and> fst (queryNotion ex_cfg ex_env_gateway (todayTasks_filter (js ''2024-05-01'')) ex_world)
       = Inl InvalidJson
   \<and> console (snd (queryNotion ex_cfg ex_env_gateway
                     (todayTasks_filter (js ''2024-05-01'')) ex_world)) = []
   \<and> net ex_env_null (length (calls ex_world))
       (notion_request ex_cfg (todayTasks_filter (js ''2024-05-01''))) = Resolved notion_null
   \<and> ok notion_null
   \<and> fst (queryNotion ex_cfg ex_env_null (todayTasks_filter (js ''2024-05-01'')) ex_world)
       = Inl TypeError"
  by (simp add: queryNotion_def fetch_def ok_def ex_env_gateway_def ex_env_null_def ex_net_def
        ex_world_def bad_gateway_def notion_null_def)

section \<open>Period\<close>

text \<open>
  C8.  The period depends on the hour alone: in the file-guarded entry point it is
  morning below 12 and evening from 12 on, in the request handler morning below 15 and
  evening from 15 on.
\<close>

theorem period_thresholds:
  "(hour now < 12 \<longrightarrow> run_period now = js ''morning'')
   \<and> (12 \<le> hour now \<longrightarrow> run_period now = js ''evening'')
   \<and> (hour now < 15 \<longrightarrow> handler_period now = js ''morning'')
   \<and> (15 \<le> hour now \<longrightarrow> handler_period now = js ''evening'')
   \<and> (hour now = hour now' \<longrightarrow>
        run_period now = run_period now' \<and> handler_period now = handler_period now')
   \<and> js ''morning'' \<noteq> js ''evening''"
  by (simp add: run_period_def handler_period_def js_def)

theorem period_thresholds_witness:
  "hour ex_now < 12 \<and> run_period ex_now = js ''morning''
   \<and> handler_period ex_now = js ''morning''
   \<and> 12 \<le> hour ex_afternoon \<and> hour ex_afternoon < 15
   \<and> run_period ex_afternoon = js ''evening'' \<and> handler_period ex_afternoon = js ''morning''
   \<and> 15 \<le> hour ex_night
   \<and> run_period ex_night = js ''evening'' \<and> handler_period ex_night = js ''evening''"
proof -
  have h: "hour ex_now = 9" "hour ex_afternoon = 13" "hour ex_night = 20"
    by (simp_all add: ex_now_def ex_afternoon_def ex_night_def)
  from period_thresholds [of ex_now ex_now] period_thresholds [of ex_afternoon ex_afternoon]
    period_thresholds [of ex_night ex_night]
  show ?thesis by (simp add: h)
qed

section \<open>Summary of the request handler\<close>

text \<open>
  C10.  When the request handler answers 200, the body has \<^verbatim>\<open>success\<close> true, the
  period of the handler, and the lengths of the results of the first and of the second
  query as \<^verbatim>\<open>todayTasksCount\<close> and \<^verbatim>\<open>changedTasksCount\<close>.
\<close>

theorem handler_success_body:
  assumes "handler cfg env now w = (r, w')" and "code r = 200"
  shows "\<exists>ts cs w1 w2.
           queryNotion cfg env (todayTasks_filter (toISODate now)) w = (Inr ts, w1)
           \<and> queryNotion cfg env (changedTasks_filter (startOfDay now) (endOfDay now)) w1
               = (Inr cs, w2)
           \<and> json_body r = SuccessJson
               \<lparr>success = True,
                message = js ''Mensagem enviada com sucesso'',
                body_period = handler_period now,
                todayTasksCount = length ts,
                changedTasksCount = length cs,
                timestamp = toISO now\<rparr>"
  using assms unfolding handler_def handler_try_def Let_def
  by (auto split: prod.splits sum.splits if_splits)

theorem handler_success_body_witness:
  "code (fst (handler ex_cfg ex_env ex_now ex_world)) = 200
   \<and> json_body (fst (handler ex_cfg ex_env ex_now ex_world))
       = SuccessJson
           \<lparr>success = True,
            message = js ''Mensagem enviada com sucesso'',
            body_period = js ''morning'',
            todayTasksCount = 1,
            changedTasksCount = 2,
            timestamp = js ''2024-05-01T09:30:00.000-03:00''\<rparr>
   \<and> fst (queryNotion ex_cfg ex_env (todayTasks_filter (toISODate ex_now)) ex_world)
       = Inr [ex_task_bare]
   \<and> fst (queryNotion ex_cfg ex_env
            (changedTasks_filter (startOfDay ex_now) (endOfDay ex_now))
            (snd (queryNotion ex_cfg ex_env (todayTasks_filter (toISODate ex_now)) ex_world)))
       = Inr [ex_task_bare, ex_task_other]"
proof -
  have a: "handler ex_cfg ex_env ex_now ex_world
      = (fst (handler ex_cfg ex_env ex_now ex_world), snd (handler ex_cfg ex_env ex_now ex_world))"
    by simp
  have r: "fst (handler ex_cfg ex_env ex_now ex_world)
      = \<lparr>code = 200,
         json_body = SuccessJson
           \<lparr>success = True,
            message = js ''Mensagem enviada com sucesso'',
            body_period = js ''morning'',
            todayTasksCount = 1,
            changedTasksCount = 2,
            timestamp = js ''2024-05-01T09:30:00.000-03:00''\<rparr>\<rparr>"
    by (simp add: handler_def handler_try_def truthy_def sendToSlack_handler_def
          handler_period_def js_def example_defs run_defs)
  then have c: "code (fst (handler ex_cfg ex_env ex_now ex_world)) = 200"
    by simp
  have q1: "fst (queryNotion ex_cfg ex_env (todayTasks_filter (toISODate ex_now)) ex_world)
       = Inr [ex_task_bare]"
    by (simp add: example_defs run_defs)
  have q2: "fst (queryNotion ex_cfg ex_env
            (changedTasks_filter (startOfDay ex_now) (endOfDay ex_now))
            (snd (queryNotion ex_cfg ex_env (todayTasks_filter (toISODate ex_now)) ex_world)))
       = Inr [ex_task_bare, ex_task_other]"
    by (simp add: example_defs run_defs)
  from handler_success_body [OF a c] r c q1 q2 show ?thesis
    by simp
qed

end
